theory Spec2Isabelle
  imports Main
begin

section \<open>JavaScript values, object identity and the world\<close>

text \<open>
  The library is TypeScript. Its objects are immutable after construction (every field
  is \<open>readonly\<close>), so an object is modelled as a value that carries its own identity:
  two references are the same reference (\<open>===\<close>) exactly when their identities agree.
  Identity \<open>0\<close> belongs to the statically created \<open>Failure.EMPTY_INSTANCE\<close>; every
  \<open>new\<close> takes the next identity from the world.

  \<open>kind\<close> is the class of an error object: \<open>KError\<close> stands for \<open>Error\<close> and its
  subclasses outside this library, every other kind is \<open>Failure\<close> or one of its
  subclasses.
\<close>

datatype kind =
    KError
  | KFailure
  | KApiFailure
  | KAuthFailure
  | KEntityAlreadyExists
  | KEntityNotFound
  | KIllegalArgument
  | KIllegalState
  | KInvalidRequest
  | KOperationNotAllowed

text \<open>
  Numbers are the integer-valued ones and \<open>NaN\<close>; every other number is truthy like a
  non-zero integer. Strings are lists of 8-bit code units, so \<open>trim\<close> knows the white
  space below 256. \<open>JObj i\<close> is an object that is not an \<open>Error\<close> (a plain object, an
  array, a function), with identity \<open>i\<close>.
\<close>

datatype jsval =
    JUndefined
  | JNull
  | JBool bool
  | JNum int
  | JNaN
  | JStr string
  | JObj nat
  | JErr errobj
and errobj =
    EObj (ident: nat) (kind: kind) (message: string) (cause: jsval)

text \<open>The world: how many objects \<open>new\<close> has created so far, and whatever else the
  callbacks of the host program can observe or change (the extension field).\<close>

record world =
  allocated :: nat

text \<open>A synchronous call either throws a value (\<open>Inl\<close>) or returns (\<open>Inr\<close>).\<close>

type_synonym 'a outcome = "jsval + 'a"

text \<open>An \<open>async\<close> function never throws to its caller: its promise settles.\<close>

datatype 'a settled = Fulfilled 'a | Rejected jsval

text \<open>What running a supplied thunk does: it returns or throws in the same turn, or
  it returns a \<open>Promise\<close> that later resolves or rejects.\<close>

datatype completion =
    SyncReturn jsval
  | SyncThrow jsval
  | AsyncResolve jsval
  | AsyncReject jsval

subsection \<open>Truthiness, \<open>String\<close>, \<open>trim\<close>\<close>

fun truthy :: "jsval \<Rightarrow> bool" where
  "truthy JUndefined = False"
| "truthy JNull = False"
| "truthy (JBool b) = b"
| "truthy (JNum n) = (n \<noteq> 0)"
| "truthy JNaN = False"
| "truthy (JStr s) = (s \<noteq> [])"
| "truthy (JObj i) = True"
| "truthy (JErr e) = True"

definition is_ws :: "char \<Rightarrow> bool" where
  "is_ws c = ((of_char c :: nat) = 9 \<or> (of_char c :: nat) = 10 \<or> (of_char c :: nat) = 11
     \<or> (of_char c :: nat) = 12 \<or> (of_char c :: nat) = 13 \<or> (of_char c :: nat) = 32
     \<or> (of_char c :: nat) = 160)"

definition trim :: "string \<Rightarrow> string" where
  "trim s = rev (dropWhile is_ws (rev (dropWhile is_ws s)))"

text \<open>\<open>instanceof Error\<close> and \<open>instanceof Failure\<close> (\<open>Failure.isFailure\<close>).\<close>

fun instanceof_Error :: "jsval \<Rightarrow> bool" where
  "instanceof_Error (JErr e) = True"
| "instanceof_Error v = False"

fun isFailure :: "jsval \<Rightarrow> bool" where
  "isFailure (JErr e) = (kind e \<noteq> KError)"
| "isFailure v = False"

text \<open>
  \<open>String(v)\<close> belongs to the host engine. On \<open>undefined\<close>, \<open>null\<close>, booleans,
  \<open>NaN\<close> and strings its result is fixed. How a number prints (\<open>"42"\<close>, \<open>"1e+21"\<close>)
  is the engine's algorithm, the parameter \<open>num_str\<close>. On an object it runs the object's
  \<open>toString\<close>, which is code of the host program: it may change the world and it may
  throw; that is the parameter \<open>obj_str\<close>.
\<close>

fun String_js ::
  "(int \<Rightarrow> string) \<Rightarrow> (jsval \<Rightarrow> 'w \<Rightarrow> string outcome \<times> 'w) \<Rightarrow> jsval \<Rightarrow> 'w
     \<Rightarrow> string outcome \<times> 'w" where
  "String_js num_str obj_str JUndefined w = (Inr ''undefined'', w)"
| "String_js num_str obj_str JNull w = (Inr ''null'', w)"
| "String_js num_str obj_str (JBool b) w = (Inr (if b then ''true'' else ''false''), w)"
| "String_js num_str obj_str (JNum n) w = (Inr (num_str n), w)"
| "String_js num_str obj_str JNaN w = (Inr ''NaN'', w)"
| "String_js num_str obj_str (JStr s) w = (Inr s, w)"
| "String_js num_str obj_str (JObj i) w = obj_str (JObj i) w"
| "String_js num_str obj_str (JErr e) w = obj_str (JErr e) w"

section \<open>Failure (failure.ts)\<close>

definition EMPTY_INSTANCE :: errobj where
  "EMPTY_INSTANCE = EObj 0 KFailure ''no failure'' JUndefined"

text \<open>\<open>new K(message, cause)\<close> for \<open>Failure\<close> and its subclasses: the constructor
  stores \<open>message || "An unknown failure occurred"\<close>.\<close>

definition new_Failure :: "kind \<Rightarrow> string \<Rightarrow> jsval \<Rightarrow> 'a world_scheme \<Rightarrow> errobj \<times> 'a world_scheme" where
  "new_Failure k msg c w =
     (EObj (Suc (allocated w)) k (if msg = [] then ''An unknown failure occurred'' else msg) c,
      w\<lparr>allocated := Suc (allocated w)\<rparr>)"

text \<open>\<open>new Error(message)\<close>.\<close>

definition new_Error :: "string \<Rightarrow> 'a world_scheme \<Rightarrow> errobj \<times> 'a world_scheme" where
  "new_Error msg w =
     (EObj (Suc (allocated w)) KError msg JUndefined, w\<lparr>allocated := Suc (allocated w)\<rparr>)"

definition Failure_empty :: errobj where
  "Failure_empty = EMPTY_INSTANCE"

definition Failure_wrap :: "string \<Rightarrow> jsval \<Rightarrow> 'a world_scheme \<Rightarrow> errobj \<times> 'a world_scheme" where
  "Failure_wrap msg c w = new_Failure KFailure msg c w"

definition Failure_ofMessage :: "string \<Rightarrow> 'a world_scheme \<Rightarrow> errobj \<times> 'a world_scheme" where
  "Failure_ofMessage msg w = new_Failure KFailure msg JUndefined w"

text \<open>\<open>this === Failure.EMPTY_INSTANCE\<close>.\<close>

definition Failure_isEmpty :: "errobj \<Rightarrow> bool" where
  "Failure_isEmpty f = (ident f = ident EMPTY_INSTANCE)"

definition Failure_isPresent :: "errobj \<Rightarrow> bool" where
  "Failure_isPresent f = (\<not> Failure_isEmpty f)"

text \<open>\<open>Failure.fromCause(cause, message?)\<close>; an omitted message is \<open>None\<close>.
  \<open>effectiveMessage\<close> is the constant of that name in the source:
  \<open>message || (cause instanceof Error ? cause.message : String(cause || 'unknown cause'))\<close>.
  \<open>String\<close> is called only in the last branch; what it throws leaves \<open>fromCause\<close>
  before the Failure is created.\<close>

definition effectiveMessage ::
  "(int \<Rightarrow> string) \<Rightarrow> (jsval \<Rightarrow> 'a world_scheme \<Rightarrow> string outcome \<times> 'a world_scheme)
     \<Rightarrow> jsval \<Rightarrow> string option \<Rightarrow> 'a world_scheme \<Rightarrow> string outcome \<times> 'a world_scheme" where
  "effectiveMessage num_str obj_str c msg w =
     (case msg of
        Some (x # xs) \<Rightarrow> (Inr (x # xs), w)
      | _ \<Rightarrow> (case c of
                JErr e \<Rightarrow> (Inr (message e), w)
              | _ \<Rightarrow> String_js num_str obj_str
                      (if truthy c then c else JStr ''unknown cause'') w))"

text \<open>The last statement of \<open>fromCause\<close>: \<open>new Failure(effectiveMessage, cause)\<close>.\<close>

definition fromCause_new ::
  "(int \<Rightarrow> string) \<Rightarrow> (jsval \<Rightarrow> 'a world_scheme \<Rightarrow> string outcome \<times> 'a world_scheme)
     \<Rightarrow> jsval \<Rightarrow> string option \<Rightarrow> 'a world_scheme \<Rightarrow> errobj outcome \<times> 'a world_scheme" where
  "fromCause_new num_str obj_str c msg w =
     (case effectiveMessage num_str obj_str c msg w of
        (Inl thrown, w') \<Rightarrow> (Inl thrown, w')
      | (Inr m, w') \<Rightarrow> (case new_Failure KFailure m c w' of (f, w'') \<Rightarrow> (Inr f, w'')))"

definition Failure_fromCause ::
  "(int \<Rightarrow> string) \<Rightarrow> (jsval \<Rightarrow> 'a world_scheme \<Rightarrow> string outcome \<times> 'a world_scheme)
     \<Rightarrow> jsval \<Rightarrow> string option \<Rightarrow> 'a world_scheme \<Rightarrow> errobj outcome \<times> 'a world_scheme" where
  "Failure_fromCause num_str obj_str c msg w =
     (case c of
        JErr e \<Rightarrow>
          if isFailure c \<and> Failure_isPresent e then (Inr e, w)
          else fromCause_new num_str obj_str c msg w
      | _ \<Rightarrow> fromCause_new num_str obj_str c msg w)"

text \<open>\<open>ifPresent(action)\<close> and \<open>ifEmpty(runnable)\<close>. An absent callback
  (\<open>null\<close>/\<open>undefined\<close>) is \<open>None\<close>; a callback runs in the world and may throw.\<close>

definition Failure_ifPresent ::
  "errobj \<Rightarrow> (errobj \<Rightarrow> 'a world_scheme \<Rightarrow> unit outcome \<times> 'a world_scheme) option
     \<Rightarrow> 'a world_scheme \<Rightarrow> unit outcome \<times> 'a world_scheme" where
  "Failure_ifPresent f action w =
     (case action of
        None \<Rightarrow> (case new_Error ''Action provided to ifPresent is null/undefined'' w of
                   (e, w') \<Rightarrow> (Inl (JErr e), w'))
      | Some a \<Rightarrow> if Failure_isPresent f then a f w else (Inr (), w))"

definition Failure_ifEmpty ::
  "errobj \<Rightarrow> ('a world_scheme \<Rightarrow> unit outcome \<times> 'a world_scheme) option
     \<Rightarrow> 'a world_scheme \<Rightarrow> unit outcome \<times> 'a world_scheme" where
  "Failure_ifEmpty f runnable w =
     (case runnable of
        None \<Rightarrow> (case new_Error ''Runnable provided to ifEmpty is null/undefined'' w of
                   (e, w') \<Rightarrow> (Inl (JErr e), w'))
      | Some r \<Rightarrow> if Failure_isEmpty f then r w else (Inr (), w))"

text \<open>The message a \<open>catch (error)\<close> block derives, as \<open>Failure.of\<close>,
  \<open>Result.map\<close> and \<open>Result.flatMap\<close> each write it out; they differ in the last
  branch only, which is the parameter \<open>fallback\<close>.\<close>

definition errorMessage :: "string \<Rightarrow> jsval \<Rightarrow> string" where
  "errorMessage fallback error =
     (case error of
        JErr e \<Rightarrow> if message e \<noteq> [] \<and> trim (message e) \<noteq> [] then message e else fallback
      | JStr s \<Rightarrow> if trim s \<noteq> [] then s else fallback
      | _ \<Rightarrow> fallback)"



subsection \<open>Failure helpers\<close>

text \<open>\<open>wrapFailure(message, cause)\<close>; a \<open>null\<close> or \<open>undefined\<close> message is
  \<open>None\<close>.\<close>

definition finalMessage :: "string option \<Rightarrow> jsval \<Rightarrow> string" where
  "finalMessage msg c =
     (if (case msg of Some m \<Rightarrow> m \<noteq> [] \<and> trim m \<noteq> [] | None \<Rightarrow> False)
      then (case msg of Some m \<Rightarrow> m | None \<Rightarrow> [])
      else if (case c of JErr e \<Rightarrow> message e \<noteq> [] \<and> trim (message e) \<noteq> [] | _ \<Rightarrow> False)
      then (case c of JErr e \<Rightarrow> message e | _ \<Rightarrow> [])
      else ''An unexpected error occurred.'')"

definition wrapFailure :: "string option \<Rightarrow> jsval \<Rightarrow> 'a world_scheme \<Rightarrow> errobj \<times> 'a world_scheme" where
  "wrapFailure msg c w = Failure_wrap (finalMessage msg c) c w"

section \<open>Option\<close>

record OptionJS =
  opt_value :: jsval

definition Option_empty :: OptionJS where
  "Option_empty = \<lparr>opt_value = JNull\<rparr>"

definition Option_ok :: "jsval \<Rightarrow> 'a world_scheme \<Rightarrow> OptionJS outcome \<times> 'a world_scheme" where
  "Option_ok v w =
     (if v = JUndefined \<or> v = JNull
      then (case new_Error
                   ''Option.of received null or undefined. Use Option.orUndefined instead.'' w of
              (e, w') \<Rightarrow> (Inl (JErr e), w'))
      else (Inr \<lparr>opt_value = v\<rparr>, w))"

definition Option_orUndefinedOrNullable :: "jsval \<Rightarrow> OptionJS" where
  "Option_orUndefinedOrNullable v =
     (if v = JUndefined \<or> v = JNull then Option_empty else \<lparr>opt_value = v\<rparr>)"

definition Option_isOk :: "OptionJS \<Rightarrow> bool" where
  "Option_isOk opt = (opt_value opt \<noteq> JNull)"

definition Option_isEmpty :: "OptionJS \<Rightarrow> bool" where
  "Option_isEmpty opt = (opt_value opt = JNull)"

definition Option_get :: "OptionJS \<Rightarrow> 'a world_scheme \<Rightarrow> jsval outcome \<times> 'a world_scheme" where
  "Option_get opt w =
     (if \<not> truthy (opt_value opt)
      then (case new_Failure KFailure ''Attempted to get value from an empty Option.''
                   JUndefined w of
              (f, w') \<Rightarrow> (Inl (JErr f), w'))
      else (Inr (opt_value opt), w))"

definition Option_getOrElse :: "OptionJS \<Rightarrow> jsval \<Rightarrow> jsval" where
  "Option_getOrElse opt defaultValue =
     (if opt_value opt \<noteq> JNull then opt_value opt else defaultValue)"

text \<open>\<open>Option.of(supplier)\<close>: \<open>Option.ok\<close> is called inside the \<open>try\<close>, so what it
  throws is caught as well.\<close>

definition Option_of_ok :: "jsval \<Rightarrow> 'a world_scheme \<Rightarrow> OptionJS settled \<times> 'a world_scheme" where
  "Option_of_ok v w =
     (case Option_ok v w of
        (Inr opt, w') \<Rightarrow> (Fulfilled opt, w')
      | (Inl error, w') \<Rightarrow> (Fulfilled Option_empty, w'))"

definition Option_of ::
  "('a world_scheme \<Rightarrow> completion \<times> 'a world_scheme) option
     \<Rightarrow> 'a world_scheme \<Rightarrow> OptionJS settled \<times> 'a world_scheme" where
  "Option_of supplier w =
     (case supplier of
        None \<Rightarrow> (case new_Error ''Runnable provided to Failure.of is null/undefined'' w of
                   (e, w') \<Rightarrow> (Rejected (JErr e), w'))
      | Some s \<Rightarrow>
          (case s w of
             (SyncReturn v, w') \<Rightarrow> Option_of_ok v w'
           | (AsyncResolve v, w') \<Rightarrow> Option_of_ok v w'
           | (SyncThrow error, w') \<Rightarrow> (Fulfilled Option_empty, w')
           | (AsyncReject error, w') \<Rightarrow> (Fulfilled Option_empty, w')))"

section \<open>Result\<close>

text \<open>The private field \<open>_failure\<close> is declared \<open>Failure | undefined\<close>; a caller
  that passes \<open>null\<close> gets it stored as it is. A reference the code tests for absence is
  therefore undefined, null or an object.\<close>

datatype failure_ref = FUndefined | FNull | FObj errobj

fun ref_val :: "failure_ref \<Rightarrow> jsval" where
  "ref_val FUndefined = JUndefined"
| "ref_val FNull = JNull"
| "ref_val (FObj e) = JErr e"

text \<open>Fields \<open>_value\<close> and \<open>_failure\<close>.\<close>

record Result =
  p_value :: jsval
  p_failure :: failure_ref

text \<open>The private constructor \<open>Result(failure?, value?)\<close>.\<close>

definition new_Result :: "failure_ref \<Rightarrow> jsval \<Rightarrow> Result" where
  "new_Result failure v = \<lparr>p_value = v, p_failure = failure\<rparr>"

definition Result_ok :: "jsval \<Rightarrow> Result" where
  "Result_ok v = new_Result FUndefined v"

text \<open>The static \<open>Result.failure(failure)\<close>.\<close>

definition Result_failure_static :: "failure_ref \<Rightarrow> Result" where
  "Result_failure_static failure = new_Result failure JUndefined"

definition Result_failureWithMessage :: "string \<Rightarrow> 'a world_scheme \<Rightarrow> Result \<times> 'a world_scheme" where
  "Result_failureWithMessage msg w =
     (case Failure_ofMessage msg w of (f, w') \<Rightarrow> (Result_failure_static (FObj f), w'))"

definition Result_isOk :: "Result \<Rightarrow> bool" where
  "Result_isOk r = (p_failure r = FUndefined)"

definition Result_isFailure :: "Result \<Rightarrow> bool" where
  "Result_isFailure r = (p_failure r \<noteq> FUndefined)"

text \<open>\<open>new IllegalArgument(message)\<close>, thrown.\<close>

definition throw_IllegalArgument :: "string \<Rightarrow> 'a world_scheme \<Rightarrow> 'b outcome \<times> 'a world_scheme" where
  "throw_IllegalArgument msg w =
     (case new_Failure KIllegalArgument msg JUndefined w of (e, w') \<Rightarrow> (Inl (JErr e), w'))"

text \<open>\<open>this._failure ? this._failure : Failure.empty()\<close>.\<close>

fun failure_or_empty :: "failure_ref \<Rightarrow> errobj" where
  "failure_or_empty (FObj e) = e"
| "failure_or_empty r = Failure_empty"

text \<open>The instance method \<open>failure()\<close>.\<close>

definition Result_failure_instance :: "Result \<Rightarrow> 'a world_scheme \<Rightarrow> errobj outcome \<times> 'a world_scheme" where
  "Result_failure_instance r w =
     (if Result_isOk r
      then throw_IllegalArgument ''Cannot get failure from a successful Result.'' w
      else (Inr (failure_or_empty (p_failure r)), w))"

text \<open>\<open>this._failure?.message\<close> inside a template string.\<close>

fun failure_message_text :: "failure_ref \<Rightarrow> string" where
  "failure_message_text (FObj e) = message e"
| "failure_message_text r = ''undefined''"

definition Result_expect :: "Result \<Rightarrow> string \<Rightarrow> 'a world_scheme \<Rightarrow> jsval outcome \<times> 'a world_scheme" where
  "Result_expect r msg w =
     (if \<not> truthy (p_value r)
      then (case Failure_wrap (msg @ '': '' @ failure_message_text (p_failure r))
                   (ref_val (p_failure r)) w of
              (f, w') \<Rightarrow> (Inl (JErr f), w'))
      else (Inr (p_value r), w))"

definition Result_get :: "Result \<Rightarrow> 'a world_scheme \<Rightarrow> jsval outcome \<times> 'a world_scheme" where
  "Result_get r w = Result_expect r ''No value present, Result is in a failure state.'' w"

definition Result_ifOk ::
  "Result \<Rightarrow> (jsval \<Rightarrow> 'a world_scheme \<Rightarrow> unit outcome \<times> 'a world_scheme) option
     \<Rightarrow> 'a world_scheme \<Rightarrow> unit outcome \<times> 'a world_scheme" where
  "Result_ifOk r action w =
     (case action of
        None \<Rightarrow> throw_IllegalArgument ''Action provided to ifOk is null/undefined'' w
      | Some a \<Rightarrow> if truthy (p_value r) then a (p_value r) w else (Inr (), w))"

definition Result_ifFailure ::
  "Result \<Rightarrow> (errobj \<Rightarrow> 'a world_scheme \<Rightarrow> unit outcome \<times> 'a world_scheme) option
     \<Rightarrow> 'a world_scheme \<Rightarrow> unit outcome \<times> 'a world_scheme" where
  "Result_ifFailure r action w =
     (case action of
        None \<Rightarrow> throw_IllegalArgument ''Action provided to ifFailure is null/undefined'' w
      | Some a \<Rightarrow> if Result_isFailure r then a (failure_or_empty (p_failure r)) w
                  else (Inr (), w))"

text \<open>The \<open>catch\<close> block of \<open>Result.of\<close> has one branch more than the others.\<close>

definition Result_of_errorMessage :: "jsval \<Rightarrow> string" where
  "Result_of_errorMessage error =
     (case error of
        JErr e \<Rightarrow> if message e \<noteq> [] \<and> trim (message e) \<noteq> [] then message e
                  else if isFailure error then message e
                  else ''An unexpected error occurred during supplier execution.''
      | JStr s \<Rightarrow> if trim s \<noteq> [] then s
                  else ''An unexpected error occurred during supplier execution.''
      | _ \<Rightarrow> ''An unexpected error occurred during supplier execution.'')"

definition Result_of_catch :: "jsval \<Rightarrow> 'a world_scheme \<Rightarrow> Result settled \<times> 'a world_scheme" where
  "Result_of_catch error w =
     (case Failure_wrap (Result_of_errorMessage error) error w of
        (f, w') \<Rightarrow> (Fulfilled (Result_failure_static (FObj f)), w'))"

definition Result_of ::
  "('a world_scheme \<Rightarrow> completion \<times> 'a world_scheme) option
     \<Rightarrow> 'a world_scheme \<Rightarrow> Result settled \<times> 'a world_scheme" where
  "Result_of supplier w =
     (case supplier of
        None \<Rightarrow>
          (case new_Failure KIllegalArgument
                  ''Supplier provided to Result.of is null/undefined'' JUndefined w of
             (e, w') \<Rightarrow> (Fulfilled (Result_failure_static (FObj e)), w'))
      | Some s \<Rightarrow>
          (case s w of
             (SyncReturn v, w') \<Rightarrow> (Fulfilled (Result_ok v), w')
           | (AsyncResolve v, w') \<Rightarrow> (Fulfilled (Result_ok v), w')
           | (SyncThrow error, w') \<Rightarrow> Result_of_catch error w'
           | (AsyncReject error, w') \<Rightarrow> Result_of_catch error w'))"

text \<open>The short-circuit branch shared by \<open>map\<close> and \<open>flatMap\<close>:
  \<open>Result.failure(this._failure ? this._failure : Failure.ofMessage("this is never called"))\<close>.\<close>

definition short_circuit :: "Result \<Rightarrow> 'a world_scheme \<Rightarrow> Result outcome \<times> 'a world_scheme" where
  "short_circuit r w =
     (case p_failure r of
        FObj e \<Rightarrow> (Inr (Result_failure_static (FObj e)), w)
      | _ \<Rightarrow> (case Failure_ofMessage ''this is never called'' w of
               (f, w') \<Rightarrow> (Inr (Result_failure_static (FObj f)), w')))"

definition mapping_catch :: "string \<Rightarrow> jsval \<Rightarrow> 'a world_scheme \<Rightarrow> Result outcome \<times> 'a world_scheme" where
  "mapping_catch fallback error w =
     (case Failure_wrap (errorMessage fallback error) error w of
        (f, w') \<Rightarrow> (Inr (Result_failure_static (FObj f)), w'))"

definition Result_map ::
  "Result \<Rightarrow> (jsval \<Rightarrow> 'a world_scheme \<Rightarrow> jsval outcome \<times> 'a world_scheme) option
     \<Rightarrow> 'a world_scheme \<Rightarrow> Result outcome \<times> 'a world_scheme" where
  "Result_map r mapper w =
     (case mapper of
        None \<Rightarrow> throw_IllegalArgument ''Mapper provided to map is null/undefined'' w
      | Some fn \<Rightarrow>
          if \<not> truthy (p_value r) then short_circuit r w
          else (case fn (p_value r) w of
                  (Inr u, w') \<Rightarrow> (Inr (Result_ok u), w')
                | (Inl error, w') \<Rightarrow> mapping_catch ''An error occurred during mapping.'' error w'))"

definition Result_flatMap ::
  "Result \<Rightarrow> (jsval \<Rightarrow> 'a world_scheme \<Rightarrow> Result outcome \<times> 'a world_scheme) option
     \<Rightarrow> 'a world_scheme \<Rightarrow> Result outcome \<times> 'a world_scheme" where
  "Result_flatMap r mapper w =
     (case mapper of
        None \<Rightarrow> throw_IllegalArgument ''Mapper provided to flatMap is null/undefined'' w
      | Some fn \<Rightarrow>
          if \<not> truthy (p_value r) then short_circuit r w
          else (case fn (p_value r) w of
                  (Inr r', w') \<Rightarrow> (Inr r', w')
                | (Inl error, w') \<Rightarrow>
                    mapping_catch ''An error occurred during flatMapping.'' error w'))"

section \<open>ActionState (action.ts)\<close>

text \<open>The union \<open>OkResult | FailureResult | InitResult\<close>; the flags \<open>isOk\<close> and
  \<open>isFailure\<close> of the object literals are read off the variant.\<close>

datatype ActionState =
    OkResult jsval
  | InitResult
  | FailureResult errobj

fun state_isOk :: "ActionState \<Rightarrow> bool" where
  "state_isOk (OkResult v) = True"
| "state_isOk InitResult = False"
| "state_isOk (FailureResult f) = False"

fun state_isFailure :: "ActionState \<Rightarrow> bool" where
  "state_isFailure (OkResult v) = False"
| "state_isFailure InitResult = False"
| "state_isFailure (FailureResult f) = True"

definition okState :: "jsval \<Rightarrow> ActionState" where
  "okState v = OkResult v"

definition initState :: ActionState where
  "initState = InitResult"

definition failureState :: "failure_ref \<Rightarrow> 'a world_scheme \<Rightarrow> ActionState outcome \<times> 'a world_scheme" where
  "failureState error w =
     (case error of
        FUndefined \<Rightarrow>
          throw_IllegalArgument
            ''Failure object cannot be null or undefined for an error Result.'' w
      | FNull \<Rightarrow>
          throw_IllegalArgument
            ''Failure object cannot be null or undefined for an error Result.'' w
      | FObj e \<Rightarrow>
          if Failure_isEmpty e
          then throw_IllegalArgument
                 ''Cannot create a failure Result with an empty Failure object. Use Result.ok() instead.'' w
          else (Inr (FailureResult e), w))"

section \<open>Vocabulary of the specification\<close>

text \<open>
  The specification states message rules as an ordered list of sources, the first
  usable one winning, with a fixed text when none is usable. These definitions follow
  its words; the theorems below compare them with the branches of the code.
\<close>

text \<open>\<open>cause.message\<close>, when the cause is an error.\<close>

fun error_message_of :: "jsval \<Rightarrow> string option" where
  "error_message_of (JErr e) = Some (message e)"
| "error_message_of v = None"


text \<open>A text that is not blank after trimming; a text that is not empty.\<close>

fun non_blank :: "string option \<Rightarrow> string option" where
  "non_blank None = None"
| "non_blank (Some s) = (if trim s = [] then None else Some s)"

fun non_empty :: "string option \<Rightarrow> string option" where
  "non_empty None = None"
| "non_empty (Some s) = (if s = [] then None else Some s)"

text \<open>The first source that is there, else the default.\<close>

fun first_of :: "string option list \<Rightarrow> string \<Rightarrow> string" where
  "first_of [] d = d"
| "first_of (None # xs) d = first_of xs d"
| "first_of (Some s # xs) d = s"

text \<open>A value that is a Failure other than the empty sentinel.\<close>

definition present_Failure :: "jsval \<Rightarrow> bool" where
  "present_Failure c = (case c of JErr e \<Rightarrow> kind e \<noteq> KError \<and> Failure_isPresent e | _ \<Rightarrow> False)"

text \<open>The object and the world that \<open>new IllegalArgument(msg)\<close> and \<open>new Error(msg)\<close>
  give in the world \<open>w\<close>.\<close>

definition IllegalArgument_at :: "'a world_scheme \<Rightarrow> string \<Rightarrow> jsval" where
  "IllegalArgument_at w msg = JErr (EObj (Suc (allocated w)) KIllegalArgument msg JUndefined)"

definition Error_at :: "'a world_scheme \<Rightarrow> string \<Rightarrow> jsval" where
  "Error_at w msg = JErr (EObj (Suc (allocated w)) KError msg JUndefined)"

definition after_new :: "'a world_scheme \<Rightarrow> 'a world_scheme" where
  "after_new w = w\<lparr>allocated := Suc (allocated w)\<rparr>"

text \<open>Hosts for the worked examples: the one number they stringify is 42; a plain object
  prints as \<open>[object Object]\<close>; an object whose \<open>toString\<close> throws the string
  \<open>"no text"\<close>.\<close>

definition example_num_str :: "int \<Rightarrow> string" where
  "example_num_str n = ''42''"

definition example_obj_str :: "jsval \<Rightarrow> 'a world_scheme \<Rightarrow> string outcome \<times> 'a world_scheme" where
  "example_obj_str v w = (Inr ''[object Object]'', w)"

definition throwing_obj_str :: "jsval \<Rightarrow> 'a world_scheme \<Rightarrow> string outcome \<times> 'a world_scheme" where
  "throwing_obj_str v w = (Inl (JStr ''no text''), w)"

section \<open>Properties\<close>

lemma trim_Nil: "trim [] = []"
  by (simp add: trim_def)

lemma fresh_is_present: "Failure_isPresent (EObj (Suc n) k m c)"
  by (simp add: Failure_isPresent_def Failure_isEmpty_def EMPTY_INSTANCE_def)

subsection \<open>Result and falsy success values\<close>

text \<open>
  Claim C1. \<open>Result.ok(0)\<close> reports \<open>isOk()\<close>, yet \<open>get()\<close> and \<open>expect(m)\<close> throw a
  wrapped Failure: \<open>expect\<close> tests \<open>!this._value\<close>. With no held failure the thrown Failure
  has the message \<open>m\<close> followed by \<open>": undefined"\<close> and the cause \<open>undefined\<close>. For every
  falsy success value \<open>expect\<close>, \<open>get\<close>, \<open>ifOk\<close>, \<open>map\<close> and \<open>flatMap\<close> do exactly
  what they do on a Result that holds no value at all.
\<close>

theorem Result_ok_falsy_get_throws:
  "\<not> truthy v \<Longrightarrow>
     Result_isOk (Result_ok v)
   \<and> Result_get (Result_ok v) w =
       (Inl (JErr (EObj (Suc (allocated w)) KFailure
                ''No value present, Result is in a failure state.: undefined'' JUndefined)),
        w\<lparr>allocated := Suc (allocated w)\<rparr>)
   \<and> Result_expect (Result_ok v) m w =
       (Inl (JErr (EObj (Suc (allocated w)) KFailure (m @ '': undefined'') JUndefined)),
        w\<lparr>allocated := Suc (allocated w)\<rparr>)
   \<and> Result_expect (Result_ok v) m w = Result_expect (Result_ok JUndefined) m w
   \<and> Result_get (Result_ok v) w = Result_get (Result_ok JUndefined) w
   \<and> Result_ifOk (Result_ok v) action w = Result_ifOk (Result_ok JUndefined) action w
   \<and> Result_map (Result_ok v) mapper w = Result_map (Result_ok JUndefined) mapper w
   \<and> Result_flatMap (Result_ok v) fmapper w = Result_flatMap (Result_ok JUndefined) fmapper w"
  by (simp add: Result_isOk_def Result_ok_def new_Result_def Result_get_def Result_expect_def
      Failure_wrap_def new_Failure_def Result_ifOk_def Result_map_def Result_flatMap_def
      short_circuit_def split: option.splits)

text \<open>The three values the claim names, in a world where nothing has been allocated.\<close>

theorem Result_ok_falsy_get_throws_witness:
  "Result_isOk (Result_ok (JNum 0))
   \<and> Result_get (Result_ok (JNum 0)) \<lparr>allocated = 0\<rparr> =
       (Inl (JErr (EObj 1 KFailure
                ''No value present, Result is in a failure state.: undefined'' JUndefined)),
        \<lparr>allocated = 1\<rparr>)
   \<and> Result_get (Result_ok (JStr [])) \<lparr>allocated = 0\<rparr> =
       (Inl (JErr (EObj 1 KFailure
                ''No value present, Result is in a failure state.: undefined'' JUndefined)),
        \<lparr>allocated = 1\<rparr>)
   \<and> Result_get (Result_ok (JBool False)) \<lparr>allocated = 0\<rparr> =
       (Inl (JErr (EObj 1 KFailure
                ''No value present, Result is in a failure state.: undefined'' JUndefined)),
        \<lparr>allocated = 1\<rparr>)"
  using Result_ok_falsy_get_throws [of "JNum 0" "\<lparr>allocated = 0\<rparr>"]
        Result_ok_falsy_get_throws [of "JStr []" "\<lparr>allocated = 0\<rparr>"]
        Result_ok_falsy_get_throws [of "JBool False" "\<lparr>allocated = 0\<rparr>"]
  by simp

subsection \<open>The static \<open>Result.failure\<close> does not validate\<close>

text \<open>
  Claim C2 says that \<open>Result.failure(failureObj)\<close> rejects an absent argument and the
  empty sentinel. The method stores whatever it is given: with \<open>Failure.empty()\<close> it
  returns a Result that reports \<open>isFailure()\<close> and whose \<open>failure()\<close> is the empty
  sentinel; with \<open>undefined\<close> it returns a Result that reports \<open>isOk()\<close>; with \<open>null\<close>
  a failure Result whose \<open>failure()\<close> is again the sentinel. Nothing is thrown.
\<close>

theorem Result_failure_static_accepts_empty:
  "Result_failure_static (FObj Failure_empty)
     = \<lparr>p_value = JUndefined, p_failure = FObj EMPTY_INSTANCE\<rparr>
   \<and> Result_isFailure (Result_failure_static (FObj Failure_empty))
   \<and> Result_failure_instance (Result_failure_static (FObj Failure_empty)) \<lparr>allocated = 0\<rparr>
       = (Inr EMPTY_INSTANCE, \<lparr>allocated = 0\<rparr>)
   \<and> Failure_isEmpty EMPTY_INSTANCE
   \<and> Result_isOk (Result_failure_static FUndefined)
   \<and> Result_failure_instance (Result_failure_static FNull) \<lparr>allocated = 0\<rparr>
       = (Inr EMPTY_INSTANCE, \<lparr>allocated = 0\<rparr>)"
  by (simp add: Result_failure_static_def new_Result_def Failure_empty_def Result_isFailure_def
      Result_failure_instance_def Result_isOk_def Failure_isEmpty_def)

subsection \<open>Short-circuit of \<open>map\<close> and \<open>flatMap\<close>\<close>

text \<open>
  Claim C3. On a failure Result holding the Failure \<open>f\<close>, \<open>map(fn)\<close> and
  \<open>flatMap(fn)\<close> return a failure Result holding the same reference \<open>f\<close> (the identity
  is part of \<open>f\<close>), and \<open>failure()\<close> on it returns \<open>f\<close>. The world comes back as it
  went in, whatever the mapper would have done to it: the mapper is not run.
\<close>

theorem Result_map_failure_short_circuit:
  "Result_map (Result_failure_static (FObj f)) (Some fn) w
     = (Inr (Result_failure_static (FObj f)), w)
   \<and> Result_flatMap (Result_failure_static (FObj f)) (Some gn) w
     = (Inr (Result_failure_static (FObj f)), w)
   \<and> Result_failure_instance (Result_failure_static (FObj f)) w = (Inr f, w)"
  by (simp add: Result_map_def Result_flatMap_def Result_failure_static_def new_Result_def
      short_circuit_def Result_failure_instance_def Result_isOk_def)

text \<open>A mapper that would allocate seven objects leaves no trace.\<close>

theorem Result_map_failure_short_circuit_witness:
  "Result_map (Result_failure_static (FObj (EObj 3 KFailure ''e'' JUndefined)))
       (Some (\<lambda>v w. (Inr (JNum 2), w\<lparr>allocated := allocated w + 7\<rparr>))) \<lparr>allocated = 3\<rparr>
     = (Inr (Result_failure_static (FObj (EObj 3 KFailure ''e'' JUndefined))), \<lparr>allocated = 3\<rparr>)
   \<and> Result_failure_instance (Result_failure_static (FObj (EObj 3 KFailure ''e'' JUndefined)))
       \<lparr>allocated = 3\<rparr>
     = (Inr (EObj 3 KFailure ''e'' JUndefined), \<lparr>allocated = 3\<rparr>)"
  using Result_map_failure_short_circuit
          [of "EObj 3 KFailure ''e'' JUndefined"
              "\<lambda>v w. (Inr (JNum 2), w\<lparr>allocated := allocated w + 7\<rparr>)" "\<lparr>allocated = 3\<rparr>"]
  by simp

text \<open>
  Claim C4. On a success Result whose value is falsy, \<open>map(fn)\<close> and \<open>flatMap(fn)\<close>
  take the short-circuit branch with an undefined failure slot: they return a failure
  Result holding a Failure created at that moment (the next identity of the world), of
  message \<open>"this is never called"\<close>; \<open>failure()\<close> on the returned Result gives that
  Failure back. The result and the world do not depend on the mapper.
\<close>

theorem Result_map_falsy_value:
  "\<not> truthy v \<Longrightarrow>
     Result_map (Result_ok v) (Some fn) w
       = (Inr (Result_failure_static
                (FObj (EObj (Suc (allocated w)) KFailure ''this is never called'' JUndefined))),
          w\<lparr>allocated := Suc (allocated w)\<rparr>)
   \<and> Result_flatMap (Result_ok v) (Some gn) w
       = (Inr (Result_failure_static
                (FObj (EObj (Suc (allocated w)) KFailure ''this is never called'' JUndefined))),
          w\<lparr>allocated := Suc (allocated w)\<rparr>)
   \<and> Result_isFailure (Result_failure_static
                (FObj (EObj (Suc (allocated w)) KFailure ''this is never called'' JUndefined)))
   \<and> Result_failure_instance
         (Result_failure_static
            (FObj (EObj (Suc (allocated w)) KFailure ''this is never called'' JUndefined)))
         (w\<lparr>allocated := Suc (allocated w)\<rparr>)
       = (Inr (EObj (Suc (allocated w)) KFailure ''this is never called'' JUndefined),
          w\<lparr>allocated := Suc (allocated w)\<rparr>)
   \<and> message (EObj (Suc (allocated w)) KFailure ''this is never called'' JUndefined)
       = ''this is never called''"
  by (simp add: Result_map_def Result_flatMap_def Result_ok_def new_Result_def
      short_circuit_def Failure_ofMessage_def new_Failure_def Result_isFailure_def
      Result_failure_static_def Result_failure_instance_def Result_isOk_def)

theorem Result_map_falsy_value_witness:
  "Result_map (Result_ok (JNum 0))
       (Some (\<lambda>v w. (Inr (JNum 2), w\<lparr>allocated := allocated w + 7\<rparr>))) \<lparr>allocated = 0\<rparr>
     = (Inr (Result_failure_static (FObj (EObj 1 KFailure ''this is never called'' JUndefined))),
        \<lparr>allocated = 1\<rparr>)
   \<and> Result_flatMap (Result_ok (JStr []))
       (Some (\<lambda>v w. (Inr (Result_ok v), w\<lparr>allocated := allocated w + 7\<rparr>))) \<lparr>allocated = 0\<rparr>
     = (Inr (Result_failure_static (FObj (EObj 1 KFailure ''this is never called'' JUndefined))),
        \<lparr>allocated = 1\<rparr>)
   \<and> Result_map (Result_ok (JBool False))
       (Some (\<lambda>v w. (Inl (JStr ''boom''), w))) \<lparr>allocated = 0\<rparr>
     = (Inr (Result_failure_static (FObj (EObj 1 KFailure ''this is never called'' JUndefined))),
        \<lparr>allocated = 1\<rparr>)
   \<and> Result_failure_instance
         (Result_failure_static (FObj (EObj 1 KFailure ''this is never called'' JUndefined)))
         \<lparr>allocated = 1\<rparr>
       = (Inr (EObj 1 KFailure ''this is never called'' JUndefined), \<lparr>allocated = 1\<rparr>)"
  using Result_map_falsy_value
          [of "JNum 0" "\<lambda>v w. (Inr (JNum 2), w\<lparr>allocated := allocated w + 7\<rparr>)"
              "\<lparr>allocated = 0\<rparr>"]
        Result_map_falsy_value
          [of "JStr []" _ "\<lparr>allocated = 0\<rparr>"
              "\<lambda>v w. (Inr (Result_ok v), w\<lparr>allocated := allocated w + 7\<rparr>)"]
        Result_map_falsy_value
          [of "JBool False" "\<lambda>v w. (Inl (JStr ''boom''), w)" "\<lparr>allocated = 0\<rparr>"]
  by simp

subsection \<open>Option\<close>

text \<open>
  Claim C6 says that \<open>Option.get\<close> throws exactly when the Option is empty. \<open>get\<close>
  tests \<open>!this.value\<close> where \<open>isOk\<close>, \<open>isEmpty\<close> and \<open>getOrElse\<close> compare with
  \<open>null\<close>: \<open>Option.ok(0)\<close> is accepted, reports \<open>isOk()\<close> and not \<open>isEmpty()\<close>,
  \<open>getOrElse(5)\<close> returns \<open>0\<close>, and \<open>get()\<close> throws the Failure whose message speaks
  of an empty Option.
\<close>

theorem Option_get_zero_throws:
  "Option_ok (JNum 0) \<lparr>allocated = 0\<rparr> = (Inr \<lparr>opt_value = JNum 0\<rparr>, \<lparr>allocated = 0\<rparr>)
   \<and> Option_isOk \<lparr>opt_value = JNum 0\<rparr>
   \<and> \<not> Option_isEmpty \<lparr>opt_value = JNum 0\<rparr>
   \<and> Option_get \<lparr>opt_value = JNum 0\<rparr> \<lparr>allocated = 0\<rparr>
       = (Inl (JErr (EObj 1 KFailure ''Attempted to get value from an empty Option.'' JUndefined)),
          \<lparr>allocated = 1\<rparr>)
   \<and> Option_getOrElse \<lparr>opt_value = JNum 0\<rparr> (JNum 5) = JNum 0"
  by (simp add: Option_ok_def Option_isOk_def Option_isEmpty_def Option_get_def new_Failure_def
      Option_getOrElse_def)

subsection \<open>Messages derived from a thrown value or a cause\<close>



lemma non_empty_Some: "non_empty msg = Some m \<longleftrightarrow> msg = Some m \<and> m \<noteq> []"
  by (cases msg) auto

lemma non_empty_None: "non_empty msg = None \<longleftrightarrow> msg = None \<or> msg = Some []"
  by (cases msg) auto

lemma fromCause_not_present:
  "\<not> present_Failure c \<Longrightarrow>
     Failure_fromCause num_str obj_str c msg w = fromCause_new num_str obj_str c msg w"
  by (cases c) (auto simp add: present_Failure_def Failure_fromCause_def)

lemma finalMessage_first_of:
  "finalMessage msg c =
     first_of [non_blank msg, non_blank (error_message_of c)] ''An unexpected error occurred.''"
  by (cases c; cases msg; simp add: finalMessage_def trim_Nil)

lemma finalMessage_not_empty: "finalMessage msg c \<noteq> []"
  by (cases c; cases msg; simp add: finalMessage_def)


lemma trim_login: "trim ''Original login failed'' = ''Original login failed''"
  by (simp add: trim_def is_ws_def)

lemma trim_spaces: "trim ''  '' = []"
  by (simp add: trim_def is_ws_def)



text \<open>
  Claim C7 says that, for a cause that is not a present Failure, the new Failure's message
  is the given message, else \<open>cause.message\<close> for an error. It fails for an error whose
  message is empty and no given message: the constructor replaces the empty text, and the
  new Failure's message is \<open>"An unknown failure occurred"\<close>, not \<open>cause.message\<close>.
\<close>

theorem Failure_fromCause_empty_message_counterexample:
  "Failure_fromCause example_num_str example_obj_str
       (JErr (EObj 1 KError [] JUndefined)) None \<lparr>allocated = 1\<rparr>
     = (Inr (EObj 2 KFailure ''An unknown failure occurred''
               (JErr (EObj 1 KError [] JUndefined))),
        \<lparr>allocated = 2\<rparr>)
   \<and> instanceof_Error (JErr (EObj 1 KError [] JUndefined))
   \<and> message (EObj 2 KFailure ''An unknown failure occurred''
                (JErr (EObj 1 KError [] JUndefined)))
       \<noteq> message (EObj 1 KError [] JUndefined)"
  by (simp add: Failure_fromCause_def fromCause_new_def effectiveMessage_def new_Failure_def)

text \<open>
  Claim C7, amended. \<open>Failure.fromCause(cause, message?)\<close> returns the cause itself,
  with the world unchanged, when the cause is a present Failure. Otherwise it returns a
  new Failure wrapping the cause. Its message is the first of: the given message when it
  is not empty; \<open>cause.message\<close> when the cause is an error; \<open>"unknown cause"\<close> when
  the cause is falsy; the text the host's \<open>String\<close> returns for the cause. When that
  text is empty, the message is \<open>"An unknown failure occurred"\<close>. When \<open>String\<close>
  throws, \<open>fromCause\<close> throws the same value and creates nothing.
\<close>

theorem Failure_fromCause_message:
  "(present_Failure (JErr e) \<longrightarrow>
      Failure_fromCause num_str obj_str (JErr e) msg w = (Inr e, w))
   \<and> (\<not> present_Failure c \<and> non_empty msg = Some m \<longrightarrow>
        Failure_fromCause num_str obj_str c msg w
          = (Inr (EObj (Suc (allocated w)) KFailure m c), after_new w))
   \<and> (\<not> present_Failure c \<and> non_empty msg = None \<and> error_message_of c = Some m \<longrightarrow>
        Failure_fromCause num_str obj_str c msg w
          = (Inr (EObj (Suc (allocated w)) KFailure
                    (first_of [non_empty (Some m)] ''An unknown failure occurred'') c),
             after_new w))
   \<and> (non_empty msg = None \<and> error_message_of c = None \<and> \<not> truthy c \<longrightarrow>
        Failure_fromCause num_str obj_str c msg w
          = (Inr (EObj (Suc (allocated w)) KFailure ''unknown cause'' c), after_new w))
   \<and> (non_empty msg = None \<and> error_message_of c = None \<and> truthy c
        \<and> String_js num_str obj_str c w = (Inr s, w') \<longrightarrow>
        Failure_fromCause num_str obj_str c msg w
          = (Inr (EObj (Suc (allocated w')) KFailure
                    (first_of [non_empty (Some s)] ''An unknown failure occurred'') c),
             after_new w'))
   \<and> (non_empty msg = None \<and> error_message_of c = None \<and> truthy c
        \<and> String_js num_str obj_str c w = (Inl thrown, w') \<longrightarrow>
        Failure_fromCause num_str obj_str c msg w = (Inl thrown, w'))"
proof (intro conjI impI)
  assume "present_Failure (JErr e)"
  then show "Failure_fromCause num_str obj_str (JErr e) msg w = (Inr e, w)"
    by (simp add: present_Failure_def Failure_fromCause_def)
next
  assume a: "\<not> present_Failure c \<and> non_empty msg = Some m"
  then have given: "effectiveMessage num_str obj_str c msg w = (Inr m, w)" and "m \<noteq> []"
    by (auto simp add: effectiveMessage_def non_empty_Some split: list.splits)
  then show "Failure_fromCause num_str obj_str c msg w
               = (Inr (EObj (Suc (allocated w)) KFailure m c), after_new w)"
    using a by (simp add: fromCause_not_present fromCause_new_def new_Failure_def after_new_def)
next
  assume a: "\<not> present_Failure c \<and> non_empty msg = None \<and> error_message_of c = Some m"
  then obtain x where c: "c = JErr x" and m: "m = message x"
    by (cases c) auto
  have "effectiveMessage num_str obj_str c msg w = (Inr m, w)"
    using a c m by (auto simp add: effectiveMessage_def non_empty_None split: list.splits)
  then show "Failure_fromCause num_str obj_str c msg w
               = (Inr (EObj (Suc (allocated w)) KFailure
                         (first_of [non_empty (Some m)] ''An unknown failure occurred'') c),
                  after_new w)"
    using a by (simp add: fromCause_not_present fromCause_new_def new_Failure_def after_new_def)
next
  assume a: "non_empty msg = None \<and> error_message_of c = None \<and> \<not> truthy c"
  then have np: "\<not> present_Failure c"
    by (cases c) (auto simp add: present_Failure_def)
  have "effectiveMessage num_str obj_str c msg w = (Inr ''unknown cause'', w)"
    using a by (cases c) (auto simp add: effectiveMessage_def non_empty_None split: list.splits)
  then show "Failure_fromCause num_str obj_str c msg w
               = (Inr (EObj (Suc (allocated w)) KFailure ''unknown cause'' c), after_new w)"
    using np by (simp add: fromCause_not_present fromCause_new_def new_Failure_def after_new_def)
next
  assume a: "non_empty msg = None \<and> error_message_of c = None \<and> truthy c
               \<and> String_js num_str obj_str c w = (Inr s, w')"
  then have np: "\<not> present_Failure c"
    by (cases c) (auto simp add: present_Failure_def)
  have "effectiveMessage num_str obj_str c msg w = String_js num_str obj_str c w"
    using a by (cases c) (auto simp add: effectiveMessage_def non_empty_None split: list.splits)
  then show "Failure_fromCause num_str obj_str c msg w
               = (Inr (EObj (Suc (allocated w')) KFailure
                         (first_of [non_empty (Some s)] ''An unknown failure occurred'') c),
                  after_new w')"
    using np a by (simp add: fromCause_not_present fromCause_new_def new_Failure_def after_new_def)
next
  assume a: "non_empty msg = None \<and> error_message_of c = None \<and> truthy c
               \<and> String_js num_str obj_str c w = (Inl thrown, w')"
  then have np: "\<not> present_Failure c"
    by (cases c) (auto simp add: present_Failure_def)
  have "effectiveMessage num_str obj_str c msg w = String_js num_str obj_str c w"
    using a by (cases c) (auto simp add: effectiveMessage_def non_empty_None split: list.splits)
  then show "Failure_fromCause num_str obj_str c msg w = (Inl thrown, w')"
    using np a by (simp add: fromCause_not_present fromCause_new_def)
qed

theorem Failure_fromCause_message_witness:
  "Failure_fromCause example_num_str example_obj_str
       (JErr (EObj 1 KAuthFailure ''denied'' JUndefined)) (Some ''other'') \<lparr>allocated = 1\<rparr>
     = (Inr (EObj 1 KAuthFailure ''denied'' JUndefined), \<lparr>allocated = 1\<rparr>)
   \<and> Failure_fromCause example_num_str example_obj_str (JNum 7) (Some ''given'') \<lparr>allocated = 1\<rparr>
     = (Inr (EObj 2 KFailure ''given'' (JNum 7)), \<lparr>allocated = 2\<rparr>)
   \<and> Failure_fromCause example_num_str example_obj_str
       (JErr (EObj 1 KError ''boom'' JUndefined)) None \<lparr>allocated = 1\<rparr>
     = (Inr (EObj 2 KFailure ''boom'' (JErr (EObj 1 KError ''boom'' JUndefined))),
        \<lparr>allocated = 2\<rparr>)
   \<and> Failure_fromCause example_num_str example_obj_str (JNum 0) None \<lparr>allocated = 1\<rparr>
     = (Inr (EObj 2 KFailure ''unknown cause'' (JNum 0)), \<lparr>allocated = 2\<rparr>)
   \<and> Failure_fromCause example_num_str example_obj_str (JNum 42) None \<lparr>allocated = 1\<rparr>
     = (Inr (EObj 2 KFailure ''42'' (JNum 42)), \<lparr>allocated = 2\<rparr>)
   \<and> Failure_fromCause example_num_str example_obj_str (JObj 1) (Some []) \<lparr>allocated = 1\<rparr>
     = (Inr (EObj 2 KFailure ''[object Object]'' (JObj 1)), \<lparr>allocated = 2\<rparr>)
   \<and> Failure_fromCause example_num_str throwing_obj_str (JObj 1) None \<lparr>allocated = 1\<rparr>
     = (Inl (JStr ''no text''), \<lparr>allocated = 1\<rparr>)"
  using Failure_fromCause_message
          [where e = "EObj 1 KAuthFailure ''denied'' JUndefined" and msg = "Some ''other''"
             and w = "\<lparr>allocated = 1\<rparr>" and c = "JNum 7" and m = "''other''"
             and num_str = example_num_str and obj_str = example_obj_str]
        Failure_fromCause_message
          [where c = "JNum 7" and msg = "Some ''given''" and m = "''given''"
             and w = "\<lparr>allocated = 1\<rparr>"
             and num_str = example_num_str and obj_str = example_obj_str]
        Failure_fromCause_message
          [where c = "JErr (EObj 1 KError ''boom'' JUndefined)" and msg = None and m = "''boom''"
             and w = "\<lparr>allocated = 1\<rparr>"
             and num_str = example_num_str and obj_str = example_obj_str]
        Failure_fromCause_message
          [where c = "JNum 0" and msg = None and w = "\<lparr>allocated = 1\<rparr>"
             and num_str = example_num_str and obj_str = example_obj_str]
        Failure_fromCause_message
          [where c = "JNum 42" and msg = None and w = "\<lparr>allocated = 1\<rparr>"
             and s = "''42''" and w' = "\<lparr>allocated = 1\<rparr>"
             and num_str = example_num_str and obj_str = example_obj_str]
        Failure_fromCause_message
          [where c = "JObj 1" and msg = "Some []" and w = "\<lparr>allocated = 1\<rparr>"
             and s = "''[object Object]''" and w' = "\<lparr>allocated = 1\<rparr>"
             and num_str = example_num_str and obj_str = example_obj_str]
        Failure_fromCause_message
          [where c = "JObj 1" and msg = None and w = "\<lparr>allocated = 1\<rparr>"
             and thrown = "JStr ''no text''" and w' = "\<lparr>allocated = 1\<rparr>"
             and num_str = example_num_str and obj_str = throwing_obj_str]
  by (simp add: present_Failure_def Failure_isPresent_def Failure_isEmpty_def EMPTY_INSTANCE_def
      example_num_str_def example_obj_str_def throwing_obj_str_def after_new_def)

text \<open>
  Claim C8. \<open>wrapFailure(message, cause)\<close> returns a Failure created at that moment,
  hence present, whose cause is the given cause and whose message is the first of: the
  given message when it is not blank after trimming; \<open>cause.message\<close> when the cause is
  an error and that message is not blank; \<open>"An unexpected error occurred."\<close>. So
  \<open>wrapFailure(null, null)\<close> has the last message.
\<close>

theorem wrapFailure_message:
  "wrapFailure msg c w =
     (EObj (Suc (allocated w)) KFailure
        (first_of [non_blank msg, non_blank (error_message_of c)] ''An unexpected error occurred.'')
        c,
      w\<lparr>allocated := Suc (allocated w)\<rparr>)
   \<and> Failure_isPresent (fst (wrapFailure msg c w))
   \<and> cause (fst (wrapFailure msg c w)) = c
   \<and> message (fst (wrapFailure None JNull w)) = ''An unexpected error occurred.''"
proof -
  have eq: "wrapFailure m' c' w =
     (EObj (Suc (allocated w)) KFailure
        (first_of [non_blank m', non_blank (error_message_of c')] ''An unexpected error occurred.'')
        c',
      w\<lparr>allocated := Suc (allocated w)\<rparr>)" for m' c'
    using finalMessage_not_empty [of m' c']
    by (simp add: wrapFailure_def Failure_wrap_def new_Failure_def finalMessage_first_of)
  show ?thesis
    by (simp add: eq fresh_is_present)
qed

theorem wrapFailure_message_witness:
  "wrapFailure None JNull \<lparr>allocated = 0\<rparr>
     = (EObj 1 KFailure ''An unexpected error occurred.'' JNull, \<lparr>allocated = 1\<rparr>)
   \<and> wrapFailure (Some ''  '') (JErr (EObj 1 KFailure ''Original login failed'' JUndefined))
       \<lparr>allocated = 1\<rparr>
     = (EObj 2 KFailure ''Original login failed''
          (JErr (EObj 1 KFailure ''Original login failed'' JUndefined)), \<lparr>allocated = 2\<rparr>)"
  using wrapFailure_message [of None JNull "\<lparr>allocated = 0\<rparr>"]
        wrapFailure_message [of "Some ''  ''" "JErr (EObj 1 KFailure ''Original login failed'' JUndefined)"
                                "\<lparr>allocated = 1\<rparr>"]
  by (simp add: trim_login trim_spaces)

subsection \<open>Misuse of the API\<close>

text \<open>
  Claim C9 says that every misuse is an IllegalArgument thrown synchronously and never
  returned as a value. \<open>Result.of\<close> without a supplier returns, as the value of its
  promise, a failure Result holding the IllegalArgument; \<open>Failure.ifPresent\<close> without an
  action throws a plain \<open>Error\<close>, which is not an IllegalArgument.
\<close>

theorem misuse_signal_counterexample:
  "Result_of None \<lparr>allocated = 0\<rparr>
     = (Fulfilled (Result_failure_static
          (FObj (EObj 1 KIllegalArgument ''Supplier provided to Result.of is null/undefined''
                   JUndefined))),
        \<lparr>allocated = 1\<rparr>)
   \<and> Failure_ifPresent (EObj 1 KFailure ''e'' JUndefined) None \<lparr>allocated = 1\<rparr>
     = (Inl (JErr (EObj 2 KError ''Action provided to ifPresent is null/undefined'' JUndefined)),
        \<lparr>allocated = 2\<rparr>)
   \<and> kind (EObj 2 KError ''Action provided to ifPresent is null/undefined'' JUndefined)
       \<noteq> KIllegalArgument
   \<and> Result_failure_instance
         (Result_failure_static
            (FObj (EObj 1 KIllegalArgument ''Supplier provided to Result.of is null/undefined''
                     JUndefined)))
         \<lparr>allocated = 1\<rparr>
       = (Inr (EObj 1 KIllegalArgument ''Supplier provided to Result.of is null/undefined''
                 JUndefined),
          \<lparr>allocated = 1\<rparr>)"
  by (simp add: Result_of_def new_Failure_def Failure_ifPresent_def new_Error_def
      Result_failure_instance_def Result_failure_static_def new_Result_def Result_isOk_def)

text \<open>
  Claim C9, amended. An absent function argument to \<open>Result.ifOk\<close>, \<open>ifFailure\<close>,
  \<open>map\<close> or \<open>flatMap\<close>, and \<open>failure()\<close> on a success Result, throw a new
  IllegalArgument synchronously. \<open>Failure.ifPresent\<close> and \<open>ifEmpty\<close> without their
  argument throw a new plain \<open>Error\<close> synchronously. \<open>Option.of\<close> without a supplier
  rejects its promise with a new plain \<open>Error\<close>. \<open>Result.of\<close> without a supplier
  fulfils its promise with a failure Result holding a new IllegalArgument: \<open>isFailure()\<close>
  is true of it and \<open>failure()\<close> returns that IllegalArgument.
\<close>

theorem misuse_signals:
  "Result_ifOk r None w
     = (Inl (IllegalArgument_at w ''Action provided to ifOk is null/undefined''), after_new w)
   \<and> Result_ifFailure r None w
     = (Inl (IllegalArgument_at w ''Action provided to ifFailure is null/undefined''), after_new w)
   \<and> Result_map r None w
     = (Inl (IllegalArgument_at w ''Mapper provided to map is null/undefined''), after_new w)
   \<and> Result_flatMap r None w
     = (Inl (IllegalArgument_at w ''Mapper provided to flatMap is null/undefined''), after_new w)
   \<and> Result_failure_instance (Result_ok v) w
     = (Inl (IllegalArgument_at w ''Cannot get failure from a successful Result.''), after_new w)
   \<and> Failure_ifPresent f None w
     = (Inl (Error_at w ''Action provided to ifPresent is null/undefined''), after_new w)
   \<and> Failure_ifEmpty f None w
     = (Inl (Error_at w ''Runnable provided to ifEmpty is null/undefined''), after_new w)
   \<and> Option_of None w
     = (Rejected (Error_at w ''Runnable provided to Failure.of is null/undefined''), after_new w)
   \<and> Result_of None w
     = (Fulfilled (Result_failure_static (FObj (EObj (Suc (allocated w)) KIllegalArgument
          ''Supplier provided to Result.of is null/undefined'' JUndefined))), after_new w)
   \<and> Result_isFailure (Result_failure_static (FObj (EObj (Suc (allocated w)) KIllegalArgument
          ''Supplier provided to Result.of is null/undefined'' JUndefined)))
   \<and> Result_failure_instance
         (Result_failure_static (FObj (EObj (Suc (allocated w)) KIllegalArgument
            ''Supplier provided to Result.of is null/undefined'' JUndefined)))
         (after_new w)
       = (Inr (EObj (Suc (allocated w)) KIllegalArgument
                 ''Supplier provided to Result.of is null/undefined'' JUndefined),
          after_new w)
   \<and> kind (EObj (Suc (allocated w)) KIllegalArgument
          ''Supplier provided to Result.of is null/undefined'' JUndefined) = KIllegalArgument"
  by (simp add: Result_ifOk_def Result_ifFailure_def Result_map_def Result_flatMap_def
      Result_failure_instance_def Result_isOk_def Result_ok_def new_Result_def
      throw_IllegalArgument_def new_Failure_def Failure_ifPresent_def Failure_ifEmpty_def
      new_Error_def Option_of_def Result_of_def IllegalArgument_at_def Error_at_def after_new_def
      Result_isFailure_def Result_failure_static_def)

theorem misuse_signals_witness:
  "Result_map (Result_ok (JNum 5)) None \<lparr>allocated = 0\<rparr>
     = (Inl (JErr (EObj 1 KIllegalArgument ''Mapper provided to map is null/undefined'' JUndefined)),
        \<lparr>allocated = 1\<rparr>)
   \<and> Result_failure_instance (Result_ok (JNum 5)) \<lparr>allocated = 0\<rparr>
     = (Inl (JErr (EObj 1 KIllegalArgument ''Cannot get failure from a successful Result.''
               JUndefined)),
        \<lparr>allocated = 1\<rparr>)
   \<and> Option_of None \<lparr>allocated = 0\<rparr>
     = (Rejected (JErr (EObj 1 KError ''Runnable provided to Failure.of is null/undefined''
               JUndefined)),
        \<lparr>allocated = 1\<rparr>)
   \<and> Result_of None \<lparr>allocated = 0\<rparr>
     = (Fulfilled (Result_failure_static (FObj (EObj 1 KIllegalArgument
          ''Supplier provided to Result.of is null/undefined'' JUndefined))), \<lparr>allocated = 1\<rparr>)
   \<and> Result_failure_instance
         (Result_failure_static (FObj (EObj 1 KIllegalArgument
            ''Supplier provided to Result.of is null/undefined'' JUndefined)))
         \<lparr>allocated = 1\<rparr>
       = (Inr (EObj 1 KIllegalArgument
                 ''Supplier provided to Result.of is null/undefined'' JUndefined),
          \<lparr>allocated = 1\<rparr>)"
  using misuse_signals [of "Result_ok (JNum 5)" "\<lparr>allocated = 0\<rparr>" "JNum 5"]
  by (simp add: IllegalArgument_at_def Error_at_def after_new_def)

subsection \<open>ActionState\<close>

text \<open>
  Claim C10. \<open>okState(value)\<close> builds the Ok variant for every value, \<open>null\<close> and
  \<open>undefined\<close> included; \<open>initState()\<close> builds Init; \<open>failureState(failureObj)\<close>
  throws a new IllegalArgument when the argument is \<open>undefined\<close>, \<open>null\<close> or the empty
  sentinel, and in no other case; otherwise it builds the Failure variant holding that
  Failure, and the world is unchanged.
\<close>

theorem ActionState_constructors:
  "okState v = OkResult v
   \<and> state_isOk (okState v) \<and> \<not> state_isFailure (okState v)
   \<and> initState = InitResult
   \<and> failureState FUndefined w
       = (Inl (IllegalArgument_at w
                ''Failure object cannot be null or undefined for an error Result.''), after_new w)
   \<and> failureState FNull w
       = (Inl (IllegalArgument_at w
                ''Failure object cannot be null or undefined for an error Result.''), after_new w)
   \<and> (Failure_isEmpty e \<longrightarrow>
        failureState (FObj e) w
          = (Inl (IllegalArgument_at w
                   ''Cannot create a failure Result with an empty Failure object. Use Result.ok() instead.''),
             after_new w))
   \<and> (Failure_isPresent e \<longrightarrow> failureState (FObj e) w = (Inr (FailureResult e), w))
   \<and> ((\<exists>x w'. failureState error w = (Inl x, w'))
        \<longleftrightarrow> (error = FUndefined \<or> error = FNull \<or> (\<exists>x. error = FObj x \<and> Failure_isEmpty x)))"
  by (cases error)
     (simp_all add: okState_def initState_def failureState_def throw_IllegalArgument_def
        new_Failure_def IllegalArgument_at_def after_new_def Failure_isPresent_def)

theorem ActionState_constructors_witness:
  "okState JNull = OkResult JNull
   \<and> okState JUndefined = OkResult JUndefined
   \<and> failureState (FObj EMPTY_INSTANCE) \<lparr>allocated = 0\<rparr>
       = (Inl (JErr (EObj 1 KIllegalArgument
                ''Cannot create a failure Result with an empty Failure object. Use Result.ok() instead.''
                JUndefined)),
          \<lparr>allocated = 1\<rparr>)
   \<and> failureState (FObj (EObj 1 KFailure ''e'' JUndefined)) \<lparr>allocated = 1\<rparr>
       = (Inr (FailureResult (EObj 1 KFailure ''e'' JUndefined)), \<lparr>allocated = 1\<rparr>)"
  using ActionState_constructors [of JNull "\<lparr>allocated = 0\<rparr>" EMPTY_INSTANCE]
        ActionState_constructors [of JUndefined "\<lparr>allocated = 1\<rparr>" "EObj 1 KFailure ''e'' JUndefined"]
  by (simp add: IllegalArgument_at_def after_new_def Failure_isPresent_def Failure_isEmpty_def
      EMPTY_INSTANCE_def)

end
